theory Spec2Isabelle
  imports Complex_Main
begin

section \<open>The cannon simulator of \<^verbatim>\<open>src/app/page.js\<close>\<close>

text \<open>
  The component \<^verbatim>\<open>CannonSimulator\<close> holds its state in React state cells and in
  mutable refs, and changes it in event handlers and animation-frame callbacks.
  The embedding below makes that state one record and every handler a function on it.

  Conventions of the embedding:
  \<^item> A JavaScript number is modelled as an exact real number: \<open>+\<close>, \<open>*\<close>, \<open>/\<close>,
    \<^verbatim>\<open>Math.sin\<close>, \<^verbatim>\<open>Math.cos\<close>, \<^verbatim>\<open>Math.sqrt\<close> and \<^verbatim>\<open>Math.PI\<close> are the
    real operations. The rounding of IEEE-754 doubles, \<^verbatim>\<open>NaN\<close> and the infinities are
    outside the model, so every statement below is one of exact arithmetic.
  \<^item> \<^verbatim>\<open>Date.now()\<close> is an integer number of milliseconds, passed in as an argument
    at each place where the source reads the clock.
  \<^item> A React state setter is applied to the state at once. A handler, however, reads
    the state cells as constants of the render that created it, so the render is an
    argument of the handler. Between two events of the user interface the component
    has rendered again, and the handler of an event is the one of the current render.
  \<^item> A ref that may be \<^verbatim>\<open>null\<close> is an \<open>option\<close>; dereferencing \<^verbatim>\<open>null\<close> is the
    outcome \<open>TypeError\<close>, carrying the state reached when the exception is thrown.
  \<^item> \<^verbatim>\<open>requestAnimationFrame(f)\<close> appends the closure \<open>f\<close> (its captured variables)
    to the list of pending frame callbacks. The render loop of the scene set-up only
    draws; it reads the state and is left out.
  \<^item> Of the three.js scene only what the handlers write is kept: the position and
    look-at point of the camera, the visibility and position of the projectile mesh,
    and the points of the trajectory line.
\<close>

subsection \<open>Constants\<close>

definition GRAVITY :: real where
  "GRAVITY = 981 / 100"

definition MOUNT_HEIGHT :: real where
  "MOUNT_HEIGHT = 15 / 10"

definition BARREL_LENGTH :: real where
  "BARREL_LENGTH = 3"

subsection \<open>Kinematics (section 5 of the source)\<close>

record point2 =
  pos_x :: real
  pos_y :: real

definition calculateTrajectory :: "real \<Rightarrow> real \<Rightarrow> real \<Rightarrow> real \<Rightarrow> point2" where
  "calculateTrajectory angle v0 time y0 =
     (let angleRad = (angle * pi) / 180;
          vx = v0 * cos angleRad;
          vy = v0 * sin angleRad;
          x = vx * time;
          y = y0 + vy * time - 0.5 * GRAVITY * time * time
      in \<lparr>pos_x = x, pos_y = y\<rparr>)"

definition calculateFlightTime :: "real \<Rightarrow> real \<Rightarrow> real \<Rightarrow> real" where
  "calculateFlightTime angle v0 y0 =
     (let angleRad = (angle * pi) / 180;
          vy = v0 * sin angleRad;
          discriminant = vy * vy + 2 * GRAVITY * y0
      in if discriminant < 0 then 0 else (vy + sqrt discriminant) / GRAVITY)"

definition calculateRange :: "real \<Rightarrow> real \<Rightarrow> real \<Rightarrow> real" where
  "calculateRange angle v0 y0 =
     (let t_flight = calculateFlightTime angle v0 y0;
          angleRad = (angle * pi) / 180;
          vx = v0 * cos angleRad
      in vx * t_flight)"

definition calculateMaxHeight :: "real \<Rightarrow> real \<Rightarrow> real \<Rightarrow> real" where
  "calculateMaxHeight angle v0 y0 =
     (let angleRad = (angle * pi) / 180;
          vy = v0 * sin angleRad
      in y0 + (vy * vy) / (2 * GRAVITY))"

subsection \<open>The state of the component\<close>

record vec3 =
  vec_x :: real
  vec_y :: real
  vec_z :: real

text \<open>\<^verbatim>\<open>projectileData\<close>. After a launch its fields hold the strings made by
  \<^verbatim>\<open>toFixed(2)\<close>; the model keeps the number such a string denotes.\<close>

record projectile_data =
  pd_range :: real
  pd_maxHeight :: real
  pd_timeOfFlight :: real
  pd_currentTime :: real
  pd_position :: point2

definition toFixed2 :: "real \<Rightarrow> real" where
  "toFixed2 x =
     (if 10 ^ 21 \<le> \<bar>x\<bar> then x
      else sgn x * real_of_int \<lfloor>\<bar>x\<bar> * 100 + 1 / 2\<rfloor> / 100)"

text \<open>\<^verbatim>\<open>cameraControlsRef.current\<close>; \<open>rotation\<close> is the pair \<^verbatim>\<open>{x, y}\<close> of elevation
  and azimuth.\<close>

record camera_controls =
  isDragging :: bool
  previousMousePosition :: point2
  rotation :: point2
  distance :: real
  target :: vec3

text \<open>The camera object: its position and the point it was last told to look at.\<close>

record camera =
  cam_position :: vec3
  cam_lookAt :: vec3

text \<open>The projectile mesh.\<close>

record mesh =
  visible :: bool
  mesh_position :: vec3

record projectile_state =
  active :: bool
  time :: real

text \<open>The variables captured by the closure \<^verbatim>\<open>animate\<close> of \<^verbatim>\<open>fireProjectile\<close>.\<close>

record flight =
  fl_cannonAngle :: real
  fl_initialVelocity :: real
  fl_y0 :: real
  fl_startX :: real
  fl_timeOfFlight :: real
  fl_startTime :: int
  fl_cameraMode :: string

text \<open>The variables captured by the closure \<^verbatim>\<open>animate\<close> of \<^verbatim>\<open>setCameraPreset\<close>.\<close>

record transition =
  tr_startPos :: vec3
  tr_startTime :: int

datatype callback = FlightAnimate flight | PresetAnimate transition

record sim =
  cannonAngle :: real
  initialVelocity :: real
  isFiring :: bool
  cameraMode :: string
  showPanel :: bool
  projectileData :: projectile_data
  cameraRef :: "camera option"
  projectileRef :: "mesh option"
  trajectoryLineRef :: "vec3 list option"
  projectileStateRef :: projectile_state
  cameraControlsRef :: camera_controls
  frameCallbacks :: "callback list"

datatype 'a outcome = Returned 'a | TypeError 'a

fun state_of :: "'a outcome \<Rightarrow> 'a" where
  "state_of (Returned s) = s"
| "state_of (TypeError s) = s"

subsection \<open>Camera controls (section 2 of the source)\<close>

text \<open>The eye position on the sphere around the target, as computed in
  \<^verbatim>\<open>updateCameraPosition\<close> and again in both \<^verbatim>\<open>animate\<close> closures.\<close>

definition eyePosition :: "camera_controls \<Rightarrow> vec3" where
  "eyePosition controls =
     (let x = pos_x (rotation controls);
          y = pos_y (rotation controls);
          dist = distance controls
      in \<lparr>vec_x = vec_x (target controls) + dist * sin y * cos x,
          vec_y = vec_y (target controls) + dist * sin x,
          vec_z = vec_z (target controls) + dist * cos y * cos x\<rparr>)"

definition updateCameraPosition :: "sim \<Rightarrow> sim" where
  "updateCameraPosition s =
     (case cameraRef s of
        None \<Rightarrow> s
      | Some cam \<Rightarrow>
          s\<lparr>cameraRef := Some (cam\<lparr>cam_position := eyePosition (cameraControlsRef s),
                                    cam_lookAt := target (cameraControlsRef s)\<rparr>)\<rparr>)"

definition handleMouseDown :: "real \<Rightarrow> real \<Rightarrow> sim \<Rightarrow> sim" where
  "handleMouseDown clientX clientY s =
     s\<lparr>cameraControlsRef := (cameraControlsRef s)
          \<lparr>isDragging := True,
           previousMousePosition := \<lparr>pos_x = clientX, pos_y = clientY\<rparr>\<rparr>\<rparr>"

definition handleMouseMove :: "real \<Rightarrow> real \<Rightarrow> sim \<Rightarrow> sim" where
  "handleMouseMove clientX clientY s =
     (let controls = cameraControlsRef s in
      if \<not> isDragging controls then s
      else
        let deltaX = clientX - pos_x (previousMousePosition controls);
            deltaY = clientY - pos_y (previousMousePosition controls);
            rot_y = pos_y (rotation controls) + deltaX * 0.005;
            rot_x = pos_x (rotation controls) + deltaY * 0.005;
            rot_x' = max 0.1 (min (pi / 2 - 0.1) rot_x)
        in updateCameraPosition
             (s\<lparr>cameraControlsRef := controls
                  \<lparr>rotation := \<lparr>pos_x = rot_x', pos_y = rot_y\<rparr>,
                   previousMousePosition := \<lparr>pos_x = clientX, pos_y = clientY\<rparr>\<rparr>\<rparr>))"

definition handleMouseUp :: "sim \<Rightarrow> sim" where
  "handleMouseUp s =
     s\<lparr>cameraControlsRef := (cameraControlsRef s)\<lparr>isDragging := False\<rparr>\<rparr>"

definition handleWheel :: "real \<Rightarrow> sim \<Rightarrow> sim" where
  "handleWheel deltaY s =
     (let controls = cameraControlsRef s;
          d = distance controls + deltaY * 0.05;
          d' = max 5 (min 100 d)
      in updateCameraPosition (s\<lparr>cameraControlsRef := controls\<lparr>distance := d'\<rparr>\<rparr>))"

subsection \<open>Camera presets (section 3 of the source)\<close>

text \<open>\<^verbatim>\<open>Vector3.lerpVectors(v1, v2, alpha)\<close> of three.js.\<close>

definition lerpVectors :: "vec3 \<Rightarrow> vec3 \<Rightarrow> real \<Rightarrow> vec3" where
  "lerpVectors v1 v2 alpha =
     \<lparr>vec_x = vec_x v1 + (vec_x v2 - vec_x v1) * alpha,
      vec_y = vec_y v1 + (vec_y v2 - vec_y v1) * alpha,
      vec_z = vec_z v1 + (vec_z v2 - vec_z v1) * alpha\<rparr>"

text \<open>One frame of the eased transition: the closure \<^verbatim>\<open>animate\<close> of
  \<^verbatim>\<open>setCameraPreset\<close>, called at clock reading \<open>now\<close>.\<close>

definition presetAnimate :: "transition \<Rightarrow> int \<Rightarrow> sim \<Rightarrow> sim outcome" where
  "presetAnimate tr now s =
     (let elapsed = real_of_int (now - tr_startTime tr);
          duration = 500;
          progress = min (elapsed / duration) 1;
          eased = 1 - (1 - progress) ^ 3;
          controls = cameraControlsRef s;
          targetPos = eyePosition controls
      in case cameraRef s of
           None \<Rightarrow> TypeError s
         | Some cam \<Rightarrow>
             let s1 = s\<lparr>cameraRef := Some (cam\<lparr>cam_position := lerpVectors (tr_startPos tr) targetPos eased,
                                                cam_lookAt := target controls\<rparr>)\<rparr>
             in if progress < 1
                then Returned (s1\<lparr>frameCallbacks := frameCallbacks s1 @ [PresetAnimate tr]\<rparr>)
                else Returned s1)"

text \<open>The \<^verbatim>\<open>switch\<close> of \<^verbatim>\<open>setCameraPreset\<close>; it has no default case.\<close>

definition presetControls :: "string \<Rightarrow> camera_controls \<Rightarrow> camera_controls" where
  "presetControls mode controls =
     (if mode = ''overview'' then
        controls\<lparr>rotation := \<lparr>pos_x = 0.3, pos_y = 0.8\<rparr>, distance := 30,
                 target := \<lparr>vec_x = 0, vec_y = 5, vec_z = 0\<rparr>\<rparr>
      else if mode = ''follow'' then
        controls\<lparr>rotation := \<lparr>pos_x = 0.2, pos_y = 0\<rparr>, distance := 15,
                 target := \<lparr>vec_x = 10, vec_y = 5, vec_z = 0\<rparr>\<rparr>
      else if mode = ''side'' then
        controls\<lparr>rotation := \<lparr>pos_x = 0.3, pos_y = pi / 2\<rparr>, distance := 35,
                 target := \<lparr>vec_x = 0, vec_y = 5, vec_z = 0\<rparr>\<rparr>
      else if mode = ''closeup'' then
        controls\<lparr>rotation := \<lparr>pos_x = 0.2, pos_y = 0.5\<rparr>, distance := 8,
                 target := \<lparr>vec_x = 0, vec_y = 3, vec_z = 0\<rparr>\<rparr>
      else controls)"

text \<open>\<open>startTime\<close> is the clock reading taken for the transition, \<open>now\<close> the one of
  the first frame, which \<^verbatim>\<open>setCameraPreset\<close> runs itself.\<close>

definition setCameraPreset :: "string \<Rightarrow> int \<Rightarrow> int \<Rightarrow> sim \<Rightarrow> sim outcome" where
  "setCameraPreset mode startTime now s =
     (let s1 = s\<lparr>cameraMode := mode,
                 cameraControlsRef := presetControls mode (cameraControlsRef s)\<rparr>
      in case cameraRef s1 of
           None \<Rightarrow> TypeError s1
         | Some cam \<Rightarrow>
             presetAnimate \<lparr>tr_startPos = cam_position cam, tr_startTime = startTime\<rparr> now s1)"

subsection \<open>Trajectory preview (section 5 of the source)\<close>

definition steps :: nat where
  "steps = 100"

text \<open>The \<^verbatim>\<open>for\<close> loop of \<^verbatim>\<open>updateTrajectoryPreview\<close>, from index \<open>i\<close> on, with the
  points pushed so far.\<close>

function previewLoop ::
  "real \<Rightarrow> real \<Rightarrow> real \<Rightarrow> real \<Rightarrow> real \<Rightarrow> nat \<Rightarrow> vec3 list \<Rightarrow> vec3 list" where
  "previewLoop angle v0 y0 timeOfFlight muzzleX i points =
     (if i \<le> steps then
        previewLoop angle v0 y0 timeOfFlight muzzleX (i + 1)
          (if 0 \<le> pos_y (calculateTrajectory angle v0 ((real i / real steps) * timeOfFlight) y0)
           then points @
             [\<lparr>vec_x = muzzleX + pos_x (calculateTrajectory angle v0 ((real i / real steps) * timeOfFlight) y0),
               vec_y = pos_y (calculateTrajectory angle v0 ((real i / real steps) * timeOfFlight) y0),
               vec_z = 0\<rparr>]
           else points)
      else points)"
  by pat_completeness auto
termination
  by (relation "measure (\<lambda>(angle, v0, y0, timeOfFlight, muzzleX, i, points). steps + 1 - i)") auto

text \<open>The array \<^verbatim>\<open>points\<close> that \<^verbatim>\<open>updateTrajectoryPreview\<close> builds from the current
  angle and velocity.\<close>

definition previewPoints :: "real \<Rightarrow> real \<Rightarrow> vec3 list" where
  "previewPoints angle v0 =
     (let angleRad = (angle * pi) / 180;
          y0 = MOUNT_HEIGHT + BARREL_LENGTH * sin angleRad;
          timeOfFlight = calculateFlightTime angle v0 y0;
          muzzleX = BARREL_LENGTH * cos angleRad
      in previewLoop angle v0 y0 timeOfFlight muzzleX 0 [])"

definition updateTrajectoryPreview :: "sim \<Rightarrow> sim" where
  "updateTrajectoryPreview s =
     (case trajectoryLineRef s of
        None \<Rightarrow> s
      | Some line \<Rightarrow>
          s\<lparr>trajectoryLineRef := Some (previewPoints (cannonAngle s) (initialVelocity s))\<rparr>)"

subsection \<open>Firing (section 6 of the source)\<close>

text \<open>One frame of the flight: the closure \<^verbatim>\<open>animate\<close> of \<^verbatim>\<open>fireProjectile\<close>, called
  at clock reading \<open>now\<close>. The angle, the velocity and the camera mode are the ones
  captured when the cannon was fired.\<close>

definition animate :: "flight \<Rightarrow> int \<Rightarrow> sim \<Rightarrow> sim outcome" where
  "animate fl now s =
     (if \<not> active (projectileStateRef s) then Returned s
      else
        let elapsed = real_of_int (now - fl_startTime fl) / 1000;
            pos = calculateTrajectory (fl_cannonAngle fl) (fl_initialVelocity fl) elapsed (fl_y0 fl)
        in if pos_y pos < 0 \<or> elapsed > fl_timeOfFlight fl + 0.1 then
             (let s1 = s\<lparr>projectileStateRef := (projectileStateRef s)\<lparr>active := False\<rparr>\<rparr>
              in case projectileRef s1 of
                   None \<Rightarrow> TypeError s1
                 | Some p \<Rightarrow>
                     Returned (s1\<lparr>projectileRef := Some (p\<lparr>visible := False\<rparr>),
                                  isFiring := False,
                                  showPanel := True\<rparr>))
           else
             (let worldX = fl_startX fl + pos_x pos;
                  worldY = pos_y pos;
                  world = \<lparr>vec_x = worldX, vec_y = worldY, vec_z = 0\<rparr>;
                  publish = (\<lambda>s'. Returned
                    (s'\<lparr>projectileData := (projectileData s')
                           \<lparr>pd_currentTime := toFixed2 elapsed,
                            pd_position := \<lparr>pos_x = toFixed2 worldX, pos_y = toFixed2 worldY\<rparr>\<rparr>,
                        frameCallbacks := frameCallbacks s' @ [FlightAnimate fl]\<rparr>))
              in case projectileRef s of
                   None \<Rightarrow> TypeError s
                 | Some p \<Rightarrow>
                     let s1 = s\<lparr>projectileRef := Some (p\<lparr>mesh_position := world\<rparr>)\<rparr>
                     in if fl_cameraMode fl = ''follow'' then
                          (let s2 = s1\<lparr>cameraControlsRef := (cameraControlsRef s1)\<lparr>target := world\<rparr>\<rparr>
                           in case cameraRef s2 of
                                None \<Rightarrow> TypeError s2
                              | Some cam \<Rightarrow>
                                  publish (s2\<lparr>cameraRef := Some
                                    (cam\<lparr>cam_position := eyePosition (cameraControlsRef s2),
                                         cam_lookAt := target (cameraControlsRef s2)\<rparr>)\<rparr>))
                        else publish s1))"

text \<open>The handler \<^verbatim>\<open>fireProjectile\<close> is created anew by every render and reads the
  state cells \<^verbatim>\<open>isFiring\<close>, \<^verbatim>\<open>cannonAngle\<close>, \<^verbatim>\<open>initialVelocity\<close> and \<^verbatim>\<open>cameraMode\<close>
  as constants of that render; the refs it reads and writes are the current ones.
  \<open>fireProjectileIn r\<close> is the handler created by the render of the state \<open>r\<close>, called
  in the state \<open>s\<close>. \<open>startTime\<close> is the clock reading taken for the flight, \<open>now\<close> the
  one of the first frame, which the handler runs itself.\<close>

definition fireProjectileIn :: "sim \<Rightarrow> int \<Rightarrow> int \<Rightarrow> sim \<Rightarrow> sim outcome" where
  "fireProjectileIn r startTime now s =
     (let s0 = s\<lparr>showPanel := False\<rparr>
      in if isFiring r then Returned s0
         else case projectileRef s0 of
           None \<Rightarrow> Returned s0
         | Some p \<Rightarrow>
             let s1 = s0\<lparr>isFiring := True, projectileRef := Some (p\<lparr>visible := True\<rparr>)\<rparr>;
                 angleRad = (cannonAngle r * pi) / 180;
                 y0 = MOUNT_HEIGHT + BARREL_LENGTH * sin angleRad;
                 startX = BARREL_LENGTH * cos angleRad;
                 startY = y0;
                 timeOfFlight = calculateFlightTime (cannonAngle r) (initialVelocity r) y0;
                 range = calculateRange (cannonAngle r) (initialVelocity r) y0;
                 maxHeight = calculateMaxHeight (cannonAngle r) (initialVelocity r) y0;
                 s2 = s1\<lparr>projectileData :=
                           \<lparr>pd_range = toFixed2 range,
                            pd_maxHeight = toFixed2 maxHeight,
                            pd_timeOfFlight = toFixed2 timeOfFlight,
                            pd_currentTime = 0,
                            pd_position = \<lparr>pos_x = toFixed2 startX, pos_y = toFixed2 startY\<rparr>\<rparr>,
                         projectileStateRef := \<lparr>active = True, time = 0\<rparr>\<rparr>
             in animate
                  \<lparr>fl_cannonAngle = cannonAngle r,
                   fl_initialVelocity = initialVelocity r,
                   fl_y0 = y0,
                   fl_startX = startX,
                   fl_timeOfFlight = timeOfFlight,
                   fl_startTime = startTime,
                   fl_cameraMode = cameraMode r\<rparr>
                  now s2)"

text \<open>The handler of the current render: the component has rendered the state in
  which it is called.\<close>

definition fireProjectile :: "int \<Rightarrow> int \<Rightarrow> sim \<Rightarrow> sim outcome" where
  "fireProjectile startTime now s = fireProjectileIn s startTime now s"

subsection \<open>Events\<close>

text \<open>What can happen to the mounted component: the mouse and wheel listeners of the
  canvas, the camera buttons, the fire button, the two buttons of the side panel, the
  browser running the oldest pending frame callback, and the timeout set by the effect
  that resets the camera target after a flight in follow mode. The fire button is
  disabled while \<open>isFiring\<close> holds, so a click on it then calls nothing.\<close>

datatype event =
    MouseDown real real
  | MouseMove real real
  | MouseUp
  | Wheel real
  | Preset string int int
  | Fire int int
  | TogglePanel
  | ClosePanel
  | Frame int
  | ResetTarget

definition runFrame :: "int \<Rightarrow> sim \<Rightarrow> sim" where
  "runFrame now s =
     (case frameCallbacks s of
        [] \<Rightarrow> s
      | cb # rest \<Rightarrow>
          (case cb of
             FlightAnimate fl \<Rightarrow> state_of (animate fl now (s\<lparr>frameCallbacks := rest\<rparr>))
           | PresetAnimate tr \<Rightarrow> state_of (presetAnimate tr now (s\<lparr>frameCallbacks := rest\<rparr>))))"

fun step :: "event \<Rightarrow> sim \<Rightarrow> sim" where
  "step (MouseDown clientX clientY) s = handleMouseDown clientX clientY s"
| "step (MouseMove clientX clientY) s = handleMouseMove clientX clientY s"
| "step MouseUp s = handleMouseUp s"
| "step (Wheel deltaY) s = handleWheel deltaY s"
| "step (Preset mode startTime now) s = state_of (setCameraPreset mode startTime now s)"
| "step (Fire startTime now) s =
     (if isFiring s then s else state_of (fireProjectile startTime now s))"
| "step TogglePanel s = s\<lparr>showPanel := \<not> showPanel s\<rparr>"
| "step ClosePanel s = s\<lparr>showPanel := False\<rparr>"
| "step (Frame now) s = runFrame now s"
| "step ResetTarget s =
     s\<lparr>cameraControlsRef := (cameraControlsRef s)\<lparr>target := \<lparr>vec_x = 0, vec_y = 5, vec_z = 0\<rparr>\<rparr>\<rparr>"

fun run :: "event list \<Rightarrow> sim \<Rightarrow> sim" where
  "run [] s = s"
| "run (e # es) s = run es (step e s)"

text \<open>The state once the component is mounted: the initial values of the state cells
  and refs, the camera and the hidden projectile created by the scene set-up, and the
  first trajectory preview.\<close>

definition initialState :: sim where
  "initialState = updateTrajectoryPreview
     \<lparr>cannonAngle = 45,
      initialVelocity = 20,
      isFiring = False,
      cameraMode = ''overview'',
      showPanel = False,
      projectileData =
        \<lparr>pd_range = 0, pd_maxHeight = 0, pd_timeOfFlight = 0, pd_currentTime = 0,
         pd_position = \<lparr>pos_x = 0, pos_y = 0\<rparr>\<rparr>,
      cameraRef = Some \<lparr>cam_position = \<lparr>vec_x = 15, vec_y = 15, vec_z = 25\<rparr>,
                        cam_lookAt = \<lparr>vec_x = 0, vec_y = 5, vec_z = 0\<rparr>\<rparr>,
      projectileRef = Some \<lparr>visible = False, mesh_position = \<lparr>vec_x = 0, vec_y = 0, vec_z = 0\<rparr>\<rparr>,
      trajectoryLineRef = Some [],
      projectileStateRef = \<lparr>active = False, time = 0\<rparr>,
      cameraControlsRef =
        \<lparr>isDragging = False,
         previousMousePosition = \<lparr>pos_x = 0, pos_y = 0\<rparr>,
         rotation = \<lparr>pos_x = 0.3, pos_y = 0.8\<rparr>,
         distance = 30,
         target = \<lparr>vec_x = 0, vec_y = 5, vec_z = 0\<rparr>\<rparr>,
      frameCallbacks = []\<rparr>"

subsection \<open>Auxiliary definitions\<close>

text \<open>The closure that \<^verbatim>\<open>fireProjectile\<close> creates in state \<open>s\<close> at clock reading
  \<open>startTime\<close>.\<close>

definition capture :: "int \<Rightarrow> sim \<Rightarrow> flight" where
  "capture startTime s =
     \<lparr>fl_cannonAngle = cannonAngle s,
      fl_initialVelocity = initialVelocity s,
      fl_y0 = MOUNT_HEIGHT + BARREL_LENGTH * sin ((cannonAngle s * pi) / 180),
      fl_startX = BARREL_LENGTH * cos ((cannonAngle s * pi) / 180),
      fl_timeOfFlight = calculateFlightTime (cannonAngle s) (initialVelocity s)
         (MOUNT_HEIGHT + BARREL_LENGTH * sin ((cannonAngle s * pi) / 180)),
      fl_startTime = startTime,
      fl_cameraMode = cameraMode s\<rparr>"

definition distance_ok :: "sim \<Rightarrow> bool" where
  "distance_ok s =
     (5 \<le> distance (cameraControlsRef s) \<and> distance (cameraControlsRef s) \<le> 100)"

declare previewLoop.simps [simp del]

section \<open>Kinematics\<close>

lemma deg45: "(45 * pi) / 180 = pi / 4"
  by simp

lemma deg60: "(60 * pi) / 180 = pi / 3"
  by simp

lemma deg90: "(90 * pi) / 180 = pi / 2"
  by simp

lemma sin_deg_nonneg:
  "0 \<le> angle \<Longrightarrow> angle \<le> 180 \<Longrightarrow> 0 \<le> sin ((angle * pi) / 180)"
  by (rule sin_ge_zero) (simp_all add: field_simps)

lemma flight_time_ge_0:
  assumes "0 \<le> angle" "angle \<le> 180" "0 \<le> v0"
  shows "0 \<le> calculateFlightTime angle v0 y0"
proof -
  have "0 \<le> sin ((angle * pi) / 180)"
    using assms(1,2) by (rule sin_deg_nonneg)
  then have vy: "0 \<le> v0 * sin ((angle * pi) / 180)"
    using assms(3) by simp
  have "0 \<le> (v0 * sin ((angle * pi) / 180) + sqrt d) / GRAVITY" if "0 \<le> d" for d
    using vy that by (simp add: GRAVITY_def)
  then show ?thesis
    by (simp add: calculateFlightTime_def Let_def not_less)
qed

text \<open>Claim C4. For an angle between 15 and 90 degrees and a velocity \<open>v0 \<ge> 0\<close>, and
  any launch height, the flight time is not negative; it is 0 when the discriminant
  \<open>vy\<^sup>2 + 2 g y0\<close> is negative and \<open>(vy + \<surd>discriminant) / g\<close> otherwise.\<close>

theorem flight_time_nonneg:
  assumes "15 \<le> angle" "angle \<le> 90" "0 \<le> v0"
  shows "0 \<le> calculateFlightTime angle v0 y0 \<and>
         (let vy = v0 * sin ((angle * pi) / 180);
              discriminant = vy * vy + 2 * GRAVITY * y0
          in calculateFlightTime angle v0 y0 =
               (if discriminant < 0 then 0 else (vy + sqrt discriminant) / GRAVITY))"
proof -
  have "0 \<le> angle" "angle \<le> 180"
    using assms(1,2) by simp_all
  then have "0 \<le> calculateFlightTime angle v0 y0"
    using assms(3) by (rule flight_time_ge_0)
  then show ?thesis
    by (simp add: calculateFlightTime_def Let_def)
qed

theorem flight_time_nonneg_witness:
  "(15::real) \<le> 90 \<and> (90::real) \<le> 90 \<and> (0::real) \<le> 10 \<and>
   0 \<le> calculateFlightTime 90 10 0 \<and>
   calculateFlightTime 90 10 0 = (10 + sqrt (10 * 10)) / GRAVITY"
  using flight_time_nonneg[of 90 10 0] by (simp add: Let_def deg90 GRAVITY_def)

lemma flight_time_45:
  assumes "0 \<le> v"
  shows "calculateFlightTime 45 v 0 = v * sqrt 2 / GRAVITY"
proof -
  have "sqrt (v * (sqrt 2 / 2) * (v * (sqrt 2 / 2))) = \<bar>v * (sqrt 2 / 2)\<bar>"
    by (rule real_sqrt_abs2)
  also have "\<dots> = v * (sqrt 2 / 2)"
    using assms by simp
  finally have s: "sqrt (v * (sqrt 2 / 2) * (v * (sqrt 2 / 2))) = v * (sqrt 2 / 2)" .
  have nn: "\<not> v * (sqrt 2 / 2) * (v * (sqrt 2 / 2)) < 0"
    by (simp add: not_less)
  show ?thesis
    unfolding calculateFlightTime_def Let_def deg45 sin_45
    using nn s by (simp add: GRAVITY_def)
qed

lemma range_45:
  assumes "0 \<le> v"
  shows "calculateRange 45 v 0 = v * v / GRAVITY"
proof -
  have "v * (sqrt 2 / 2) * (v * sqrt 2 / GRAVITY) = v * v * (sqrt 2 * sqrt 2) / (2 * GRAVITY)"
    by (simp add: GRAVITY_def)
  also have "\<dots> = v * v / GRAVITY"
    by (simp add: GRAVITY_def)
  finally show ?thesis
    unfolding calculateRange_def Let_def deg45 cos_45 flight_time_45[OF assms] .
qed

lemma sqrt2_bounds: "141421 / 100000 < sqrt 2" "sqrt 2 < 141422 / 100000"
proof -
  show "141421 / 100000 < sqrt 2"
    by (rule real_less_rsqrt) (simp add: power2_eq_square)
  show "sqrt 2 < 141422 / 100000"
    by (rule real_less_lsqrt) (simp_all add: power2_eq_square)
qed

text \<open>Claim C5. With \<open>g = 9.81\<close>, at 45 degrees, \<open>v0 = 20\<close> and \<open>y0 = 0\<close> the flight
  time is 2.883, the range 40.77 and the maximal height 10.19, each to the digits
  given (within half a unit of the last digit).\<close>

theorem scenario_45_20:
  "\<bar>calculateFlightTime 45 20 0 - 2883 / 1000\<bar> < 5 / 10000 \<and>
   \<bar>calculateRange 45 20 0 - 4077 / 100\<bar> < 5 / 1000 \<and>
   \<bar>calculateMaxHeight 45 20 0 - 1019 / 100\<bar> < 5 / 1000"
proof (intro conjI)
  have t: "calculateFlightTime 45 20 0 = 2000 * sqrt 2 / 981"
    using flight_time_45[of 20] by (simp add: GRAVITY_def)
  show "\<bar>calculateFlightTime 45 20 0 - 2883 / 1000\<bar> < 5 / 10000"
    unfolding t using sqrt2_bounds by (simp add: abs_less_iff field_simps)
  have r: "calculateRange 45 20 0 = 40000 / 981"
    using range_45[of 20] by (simp add: GRAVITY_def)
  show "\<bar>calculateRange 45 20 0 - 4077 / 100\<bar> < 5 / 1000"
    unfolding r by (simp add: abs_less_iff)
  have "20 * (sqrt 2 / 2) * (20 * (sqrt 2 / 2)) = 100 * (sqrt 2 * sqrt 2)"
    by simp
  then have h: "calculateMaxHeight 45 20 0 = 10000 / 981"
    unfolding calculateMaxHeight_def Let_def deg45 sin_45 by (simp add: GRAVITY_def)
  show "\<bar>calculateMaxHeight 45 20 0 - 1019 / 100\<bar> < 5 / 1000"
    unfolding h by (simp add: abs_less_iff)
qed

text \<open>Claim C6. At 45 degrees and \<open>y0 = 0\<close> the range is strictly increasing in the
  velocity: for \<open>0 < v1 < v2\<close> the range at \<open>v1\<close> is below the range at \<open>v2\<close>.\<close>

theorem range_45_strictly_increasing:
  assumes "0 < v1" "v1 < v2"
  shows "calculateRange 45 v1 0 < calculateRange 45 v2 0"
proof -
  have "v1 * v1 < v2 * v2"
    using assms by (simp add: mult_strict_mono)
  then have "v1 * v1 / GRAVITY < v2 * v2 / GRAVITY"
    by (simp add: GRAVITY_def divide_strict_right_mono)
  then show ?thesis
    using assms by (simp add: range_45)
qed

theorem range_45_strictly_increasing_witness:
  "(0::real) < 10 \<and> (10::real) < 20 \<and> calculateRange 45 10 0 < calculateRange 45 20 0"
  using range_45_strictly_increasing[of 10 20] by simp

text \<open>Claim C9. The maximal height bounds the trajectory from above: at every time
  \<open>t\<close> the height of the projectile is at most \<open>calculateMaxHeight\<close>. This holds for
  every angle, velocity and launch height, so in particular for angles between 15 and
  90 degrees and \<open>v0 \<ge> 0\<close>.\<close>

theorem max_height_upper_bound:
  "pos_y (calculateTrajectory angle v0 t y0) \<le> calculateMaxHeight angle v0 y0"
proof -
  define vy where "vy = v0 * sin ((angle * pi) / 180)"
  have "0 \<le> (vy - GRAVITY * t)\<^sup>2 / (2 * GRAVITY)"
    by (simp add: GRAVITY_def)
  also have "(vy - GRAVITY * t)\<^sup>2 / (2 * GRAVITY)
      = (y0 + vy * vy / (2 * GRAVITY)) - (y0 + vy * t - 0.5 * GRAVITY * t * t)"
    by (simp add: GRAVITY_def power2_eq_square field_simps)
  finally show ?thesis
    by (simp add: calculateTrajectory_def calculateMaxHeight_def Let_def vy_def)
qed

text \<open>In exact arithmetic the flight time is a root of the height: launched from
  \<open>y0 \<ge> 0\<close>, the projectile is at height 0, exactly, at \<open>calculateFlightTime\<close>.\<close>

lemma root_residual:
  fixes vy y0 g s :: real
  assumes "0 < g" "s * s = vy * vy + 2 * g * y0"
  shows "y0 + vy * ((vy + s) / g) - 0.5 * g * ((vy + s) / g) * ((vy + s) / g) = 0"
proof -
  have "y0 + vy * ((vy + s) / g) - 0.5 * g * ((vy + s) / g) * ((vy + s) / g)
        = (2 * g * y0 + vy * vy - s * s) / (2 * g)"
    using assms(1) by (simp add: field_simps)
  also have "\<dots> = 0"
    using assms(2) by simp
  finally show ?thesis .
qed

lemma flight_root_exact:
  assumes "0 \<le> y0"
  shows "pos_y (calculateTrajectory angle v0 (calculateFlightTime angle v0 y0) y0) = 0"
proof -
  define vy where "vy = v0 * sin ((angle * pi) / 180)"
  define d where "d = vy * vy + 2 * GRAVITY * y0"
  have d0: "0 \<le> d"
    using assms by (simp add: d_def GRAVITY_def)
  have t: "calculateFlightTime angle v0 y0 = (vy + sqrt d) / GRAVITY"
    using d0 by (simp add: calculateFlightTime_def Let_def vy_def d_def)
  have "sqrt d * sqrt d = vy * vy + 2 * GRAVITY * y0"
    using d0 by (simp add: d_def)
  from root_residual[OF _ this]
  have "y0 + vy * ((vy + sqrt d) / GRAVITY)
          - 0.5 * GRAVITY * ((vy + sqrt d) / GRAVITY) * ((vy + sqrt d) / GRAVITY) = 0"
    by (simp add: GRAVITY_def)
  then show ?thesis
    by (simp add: calculateTrajectory_def Let_def t vy_def)
qed

section \<open>Firing and the flight\<close>

lemma initialState_simps [simp]:
  "cannonAngle initialState = 45"
  "initialVelocity initialState = 20"
  "isFiring initialState = False"
  "showPanel initialState = False"
  "cameraMode initialState = ''overview''"
  "cameraRef initialState =
     Some \<lparr>cam_position = \<lparr>vec_x = 15, vec_y = 15, vec_z = 25\<rparr>,
           cam_lookAt = \<lparr>vec_x = 0, vec_y = 5, vec_z = 0\<rparr>\<rparr>"
  "projectileRef initialState =
     Some \<lparr>visible = False, mesh_position = \<lparr>vec_x = 0, vec_y = 0, vec_z = 0\<rparr>\<rparr>"
  "distance (cameraControlsRef initialState) = 30"
  "frameCallbacks initialState = []"
  by (simp_all add: initialState_def updateTrajectoryPreview_def)

text \<open>The guard of \<^verbatim>\<open>fireProjectile\<close>: the panel is closed first, then the call
  returns.\<close>

lemma fire_in_while_firing:
  "isFiring r \<Longrightarrow> fireProjectileIn r t0 t1 s = Returned (s\<lparr>showPanel := False\<rparr>)"
  by (simp add: fireProjectileIn_def)

lemma fire_while_firing:
  "isFiring s \<Longrightarrow> fireProjectile t0 t1 s = Returned (s\<lparr>showPanel := False\<rparr>)"
  by (simp add: fireProjectile_def fire_in_while_firing)

text \<open>Within the first tenth of a second the projectile has not landed: it starts
  at the muzzle, at least \<open>MOUNT_HEIGHT\<close> above the ground.\<close>

lemma first_frame_flying:
  fixes e :: real
  assumes a: "0 \<le> angle" "angle \<le> 180" and v: "0 \<le> v0" and e: "0 \<le> e" "e \<le> 1 / 10"
  defines "y0 \<equiv> MOUNT_HEIGHT + BARREL_LENGTH * sin ((angle * pi) / 180)"
  shows "\<not> (pos_y (calculateTrajectory angle v0 e y0) < 0 \<or>
            e > calculateFlightTime angle v0 y0 + 0.1)"
proof -
  have s: "0 \<le> sin ((angle * pi) / 180)"
    using a by (rule sin_deg_nonneg)
  have y0: "3 / 2 \<le> y0"
    using s by (simp add: y0_def MOUNT_HEIGHT_def BARREL_LENGTH_def)
  have vy: "0 \<le> v0 * sin ((angle * pi) / 180) * e"
    using s v e by simp
  have "e * e \<le> (1 / 10) * (1 / 10)"
    using e by (intro mult_mono) simp_all
  then have g: "0.5 * GRAVITY * e * e \<le> 1 / 10"
    by (simp add: GRAVITY_def)
  have "0 \<le> y0 + v0 * sin ((angle * pi) / 180) * e - 0.5 * GRAVITY * e * e"
    using y0 vy g by linarith
  then have 1: "\<not> pos_y (calculateTrajectory angle v0 e y0) < 0"
    by (simp add: calculateTrajectory_def Let_def)
  have "0 \<le> calculateFlightTime angle v0 y0"
    using a v by (rule flight_time_ge_0)
  then have 2: "\<not> e > calculateFlightTime angle v0 y0 + 0.1"
    using e by simp
  show ?thesis
    using 1 2 by blast
qed

lemma animate_flying:
  assumes "active (projectileStateRef s)" "projectileRef s = Some p" "cameraRef s = Some cam"
    and "\<not> (pos_y (calculateTrajectory (fl_cannonAngle fl) (fl_initialVelocity fl)
               (real_of_int (now - fl_startTime fl) / 1000) (fl_y0 fl)) < 0 \<or>
            real_of_int (now - fl_startTime fl) / 1000 > fl_timeOfFlight fl + 0.1)"
  shows "\<exists>s'. animate fl now s = Returned s' \<and> isFiring s' = isFiring s \<and>
           showPanel s' = showPanel s \<and> active (projectileStateRef s') \<and>
           projectileRef s' \<noteq> None \<and> cameraRef s' \<noteq> None \<and>
           frameCallbacks s' = frameCallbacks s @ [FlightAnimate fl]"
  using assms by (simp add: animate_def Let_def)

text \<open>Firing the mounted cannon from a render in which \<open>isFiring\<close> is false starts a
  flight, when the first frame runs within 100 ms of the start. The flight carries the
  angle, the velocity and the camera mode of that render.\<close>

lemma fire_idle_in:
  assumes r: "0 \<le> cannonAngle r" "cannonAngle r \<le> 180" "0 \<le> initialVelocity r"
    and idle: "\<not> isFiring r"
    and refs: "projectileRef s = Some p" "cameraRef s = Some cam"
    and clock: "t0 \<le> t1" "t1 \<le> t0 + 100"
  shows "\<exists>s1. fireProjectileIn r t0 t1 s = Returned s1 \<and> isFiring s1 \<and> \<not> showPanel s1 \<and>
           active (projectileStateRef s1) \<and>
           projectileRef s1 \<noteq> None \<and> cameraRef s1 \<noteq> None \<and>
           frameCallbacks s1 = frameCallbacks s @ [FlightAnimate (capture t0 r)]"
proof -
  define e where "e = real_of_int (t1 - t0) / 1000"
  have e: "0 \<le> e" "e \<le> 1 / 10"
    using clock by (simp_all add: e_def)
  note ff = first_frame_flying[OF r e]
  define s2 where "s2 = s\<lparr>showPanel := False, isFiring := True,
      projectileRef := Some (p\<lparr>visible := True\<rparr>),
      projectileData :=
        \<lparr>pd_range = toFixed2 (calculateRange (cannonAngle r) (initialVelocity r) (fl_y0 (capture t0 r))),
         pd_maxHeight = toFixed2 (calculateMaxHeight (cannonAngle r) (initialVelocity r) (fl_y0 (capture t0 r))),
         pd_timeOfFlight = toFixed2 (fl_timeOfFlight (capture t0 r)),
         pd_currentTime = 0,
         pd_position = \<lparr>pos_x = toFixed2 (fl_startX (capture t0 r)),
                        pos_y = toFixed2 (fl_y0 (capture t0 r))\<rparr>\<rparr>,
      projectileStateRef := \<lparr>active = True, time = 0\<rparr>\<rparr>"
  have f: "fireProjectileIn r t0 t1 s = animate (capture t0 r) t1 s2"
    using idle refs by (simp add: fireProjectileIn_def Let_def s2_def capture_def)
  have "\<exists>s'. animate (capture t0 r) t1 s2 = Returned s' \<and> isFiring s' = isFiring s2 \<and>
           showPanel s' = showPanel s2 \<and> active (projectileStateRef s') \<and>
           projectileRef s' \<noteq> None \<and> cameraRef s' \<noteq> None \<and>
           frameCallbacks s' = frameCallbacks s2 @ [FlightAnimate (capture t0 r)]"
  proof (rule animate_flying)
    show "active (projectileStateRef s2)"
      by (simp add: s2_def)
    show "projectileRef s2 = Some (p\<lparr>visible := True\<rparr>)"
      by (simp add: s2_def)
    show "cameraRef s2 = Some cam"
      using refs by (simp add: s2_def)
    show "\<not> (pos_y (calculateTrajectory (fl_cannonAngle (capture t0 r))
                 (fl_initialVelocity (capture t0 r))
                 (real_of_int (t1 - fl_startTime (capture t0 r)) / 1000)
                 (fl_y0 (capture t0 r))) < 0 \<or>
              real_of_int (t1 - fl_startTime (capture t0 r)) / 1000
                > fl_timeOfFlight (capture t0 r) + 0.1)"
      using ff by (simp add: capture_def e_def)
  qed
  then show ?thesis
    unfolding f by (auto simp: s2_def)
qed

lemma fire_idle:
  assumes "0 \<le> cannonAngle s" "cannonAngle s \<le> 180" "0 \<le> initialVelocity s"
    and "\<not> isFiring s"
    and "projectileRef s = Some p" "cameraRef s = Some cam"
    and "t0 \<le> t1" "t1 \<le> t0 + 100"
  shows "\<exists>s1. fireProjectile t0 t1 s = Returned s1 \<and> isFiring s1 \<and> \<not> showPanel s1 \<and>
           active (projectileStateRef s1) \<and>
           projectileRef s1 \<noteq> None \<and> cameraRef s1 \<noteq> None \<and>
           frameCallbacks s1 = frameCallbacks s @ [FlightAnimate (capture t0 s)]"
  unfolding fireProjectile_def using assms by (rule fire_idle_in)

lemma fired_initial:
  "\<exists>s1. fireProjectile 0 0 initialState = Returned s1 \<and> isFiring s1 \<and> \<not> showPanel s1 \<and>
     active (projectileStateRef s1) \<and> projectileRef s1 \<noteq> None \<and> cameraRef s1 \<noteq> None"
proof -
  have h: "0 \<le> cannonAngle initialState" "cannonAngle initialState \<le> 180"
    "0 \<le> initialVelocity initialState" "\<not> isFiring initialState"
    "(0::int) \<le> 0" "(0::int) \<le> 0 + 100"
    by simp_all
  from fire_idle[OF h(1-4) initialState_simps(7) initialState_simps(6) h(5,6)]
  show ?thesis by blast
qed

text \<open>A state the user can reach: the cannon is fired, then the panel is opened
  with the controls button while the projectile is in the air.\<close>

lemma flying_panel_open:
  "isFiring (run [Fire 0 0, TogglePanel] initialState) \<and>
   showPanel (run [Fire 0 0, TogglePanel] initialState)"
proof -
  from fired_initial obtain s1 where
    s1: "fireProjectile 0 0 initialState = Returned s1" "isFiring s1" "\<not> showPanel s1"
    by blast
  have "run [Fire 0 0, TogglePanel] initialState = s1\<lparr>showPanel := \<not> showPanel s1\<rparr>"
    by (simp add: s1(1))
  then show ?thesis
    using s1(2,3) by simp
qed

text \<open>Claim C2, as it stands: a call of \<^verbatim>\<open>fireProjectile\<close> during a flight is a
  no-op, and two calls in immediate succession give one flight. Neither holds of the
  handler. First, two calls of the handler of one render, at 0 ms and at 16 ms, on the
  mounted component: the second call reads \<open>isFiring\<close> as the first did, false, passes
  the guard and schedules a second flight with the new start time. Second, in the state
  reached by firing and then opening the panel, the handler of the current render, in
  which \<open>isFiring\<close> is true, changes the state: it closes the panel.\<close>

theorem fire_twice_same_render:
  "frameCallbacks (state_of (fireProjectileIn initialState 0 0 initialState))
     = [FlightAnimate (capture 0 initialState)] \<and>
   frameCallbacks (state_of (fireProjectileIn initialState 16 16
       (state_of (fireProjectileIn initialState 0 0 initialState))))
     = [FlightAnimate (capture 0 initialState), FlightAnimate (capture 16 initialState)] \<and>
   fl_startTime (capture 16 initialState) = 16 \<and>
   isFiring (run [Fire 0 0, TogglePanel] initialState) \<and>
   fireProjectile 16 16 (run [Fire 0 0, TogglePanel] initialState)
     \<noteq> Returned (run [Fire 0 0, TogglePanel] initialState)"
proof -
  have h: "0 \<le> cannonAngle initialState" "cannonAngle initialState \<le> 180"
    "0 \<le> initialVelocity initialState" "\<not> isFiring initialState"
    "(0::int) \<le> 0" "(0::int) \<le> 0 + 100" "(16::int) \<le> 16" "(16::int) \<le> 16 + 100"
    by simp_all
  from fire_idle_in[OF h(1-4) initialState_simps(7) initialState_simps(6) h(5,6)]
  obtain s1 where s1: "fireProjectileIn initialState 0 0 initialState = Returned s1"
      "projectileRef s1 \<noteq> None" "cameraRef s1 \<noteq> None"
      "frameCallbacks s1 = frameCallbacks initialState @ [FlightAnimate (capture 0 initialState)]"
    by blast
  from s1(2,3) obtain p cam where refs: "projectileRef s1 = Some p" "cameraRef s1 = Some cam"
    by blast
  from fire_idle_in[OF h(1-4) refs h(7,8)]
  obtain s2 where s2: "fireProjectileIn initialState 16 16 s1 = Returned s2"
      "frameCallbacks s2 = frameCallbacks s1 @ [FlightAnimate (capture 16 initialState)]"
    by blast
  have one: "frameCallbacks (state_of (fireProjectileIn initialState 0 0 initialState))
      = [FlightAnimate (capture 0 initialState)]"
    using s1(1,4) by simp
  have two: "frameCallbacks (state_of (fireProjectileIn initialState 16 16
        (state_of (fireProjectileIn initialState 0 0 initialState))))
      = [FlightAnimate (capture 0 initialState), FlightAnimate (capture 16 initialState)]"
    using s1(1,4) s2 by simp
  let ?S = "run [Fire 0 0, TogglePanel] initialState"
  have S: "isFiring ?S" "showPanel ?S"
    using flying_panel_open by simp_all
  have f: "fireProjectile 16 16 ?S = Returned (?S\<lparr>showPanel := False\<rparr>)"
    using S(1) by (rule fire_while_firing)
  have "?S\<lparr>showPanel := False\<rparr> \<noteq> ?S"
  proof
    assume "?S\<lparr>showPanel := False\<rparr> = ?S"
    then have "showPanel (?S\<lparr>showPanel := False\<rparr>) = showPanel ?S"
      by (rule arg_cong)
    then show False
      using S(2) by simp
  qed
  then have three: "fireProjectile 16 16 ?S \<noteq> Returned ?S"
    using f by simp
  show ?thesis
    using one two S(1) three by (simp add: capture_def)
qed

text \<open>Claim C2, amended. A call of \<^verbatim>\<open>fireProjectile\<close> made by a render in which
  \<open>isFiring\<close> is true starts no flight. So of two calls, the second made after the
  component has rendered the state that the first one left, exactly one starts a flight.
  The first call, made on the mounted cannon by the render of its idle state (angle
  between 15 and 90 degrees, velocity not negative, first frame within 100 ms), sets
  \<open>isFiring\<close>, activates the projectile and schedules one frame callback holding the
  captured angle, velocity, launch height, muzzle offset, flight time, start time and
  camera mode. The second call, whether made by the render of that very state or by any
  render \<open>r'\<close> in which \<open>isFiring\<close> is true, at any clock readings, returns the very same
  state: the panel is closed already, nothing is captured again and the start time stays.
  A second call made by the render of the first is left out.\<close>

theorem fire_twice_one_flight:
  assumes "15 \<le> cannonAngle s" "cannonAngle s \<le> 90" "0 \<le> initialVelocity s"
    and "\<not> isFiring s" "projectileRef s = Some p" "cameraRef s = Some cam"
    and "t0 \<le> t1" "t1 \<le> t0 + 100"
    and "isFiring r'"
  shows "\<exists>s1. fireProjectileIn s t0 t1 s = Returned s1 \<and> isFiring s1 \<and>
           active (projectileStateRef s1) \<and>
           frameCallbacks s1 = frameCallbacks s @
             [FlightAnimate
                \<lparr>fl_cannonAngle = cannonAngle s,
                 fl_initialVelocity = initialVelocity s,
                 fl_y0 = MOUNT_HEIGHT + BARREL_LENGTH * sin ((cannonAngle s * pi) / 180),
                 fl_startX = BARREL_LENGTH * cos ((cannonAngle s * pi) / 180),
                 fl_timeOfFlight = calculateFlightTime (cannonAngle s) (initialVelocity s)
                    (MOUNT_HEIGHT + BARREL_LENGTH * sin ((cannonAngle s * pi) / 180)),
                 fl_startTime = t0,
                 fl_cameraMode = cameraMode s\<rparr>] \<and>
           fireProjectileIn s1 t2 t3 s1 = Returned s1 \<and>
           fireProjectileIn r' t2 t3 s1 = Returned s1"
proof -
  have "0 \<le> cannonAngle s" "cannonAngle s \<le> 180"
    using assms(1,2) by simp_all
  from fire_idle_in[OF this assms(3-8)] obtain s1 where
    s1: "fireProjectileIn s t0 t1 s = Returned s1" "isFiring s1" "\<not> showPanel s1"
        "active (projectileStateRef s1)"
        "frameCallbacks s1 = frameCallbacks s @ [FlightAnimate (capture t0 s)]"
    by blast
  have same: "s1\<lparr>showPanel := False\<rparr> = s1"
    using s1(3) by simp
  have "fireProjectileIn s1 t2 t3 s1 = Returned s1"
    using fire_in_while_firing[OF s1(2), of t2 t3 s1] same by simp
  moreover have "fireProjectileIn r' t2 t3 s1 = Returned s1"
    using fire_in_while_firing[OF assms(9), of t2 t3 s1] same by simp
  ultimately show ?thesis
    using s1 by (simp add: capture_def)
qed

theorem fire_twice_one_flight_witness:
  "\<exists>s1. fireProjectileIn initialState 0 0 initialState = Returned s1 \<and> isFiring s1 \<and>
      active (projectileStateRef s1) \<and> fireProjectileIn s1 16 16 s1 = Returned s1 \<and>
      fireProjectileIn (initialState\<lparr>isFiring := True\<rparr>) 16 16 s1 = Returned s1"
proof -
  have h: "15 \<le> cannonAngle initialState" "cannonAngle initialState \<le> 90"
    "0 \<le> initialVelocity initialState" "\<not> isFiring initialState"
    "(0::int) \<le> 0" "(0::int) \<le> 0 + 100"
    "isFiring (initialState\<lparr>isFiring := True\<rparr>)"
    by simp_all
  from fire_twice_one_flight[OF h(1-4) initialState_simps(7) initialState_simps(6) h(5-7),
      of 16 16]
  show ?thesis by blast
qed

text \<open>Claim C10. A call of \<^verbatim>\<open>fireProjectile\<close> during a flight sets \<open>showPanel\<close> to
  false, since the panel is closed before the guard on \<open>isFiring\<close>, and leaves every other
  component of the state as it was: the returned state is the old one with
  \<open>showPanel\<close> updated.\<close>

theorem fire_while_flying_frame:
  assumes "isFiring s"
  shows "fireProjectile t0 t1 s = Returned (s\<lparr>showPanel := False\<rparr>)"
  using assms by (simp add: fireProjectile_def fireProjectileIn_def)

theorem fire_while_flying_frame_witness:
  "isFiring (run [Fire 0 0, TogglePanel] initialState) \<and>
   showPanel (run [Fire 0 0, TogglePanel] initialState) \<and>
   fireProjectile 16 16 (run [Fire 0 0, TogglePanel] initialState)
     = Returned ((run [Fire 0 0, TogglePanel] initialState)\<lparr>showPanel := False\<rparr>)"
  using fire_while_flying_frame[of "run [Fire 0 0, TogglePanel] initialState" 16 16]
    flying_panel_open
  by blast

text \<open>Claim C3. While the projectile is active, a frame at elapsed time \<open>e\<close> ends the
  flight exactly when the computed height is negative or \<open>e\<close> exceeds the flight
  time by more than 0.1 s. Ending the flight deactivates and hides the projectile, clears
  \<open>isFiring\<close> and opens the panel, and changes nothing else. Otherwise the projectile
  stays active at the position \<open>(startX + x, y, 0)\<close>, where \<open>(x, y)\<close> is
  \<open>calculateTrajectory\<close> at the captured angle, velocity and launch height: the offset of
  the launch origin is the horizontal muzzle offset \<open>startX\<close>, the launch height being
  part of \<open>y\<close> already. The same position goes to the read-out, rounded to two
  decimals, and to the camera target in follow mode; the frame is scheduled again.\<close>

theorem landing_predicate:
  assumes "active (projectileStateRef s)" "projectileRef s = Some p" "cameraRef s = Some cam"
  shows "let elapsed = real_of_int (now - fl_startTime fl) / 1000;
             pos = calculateTrajectory (fl_cannonAngle fl) (fl_initialVelocity fl)
                     elapsed (fl_y0 fl);
             world = \<lparr>vec_x = fl_startX fl + pos_x pos, vec_y = pos_y pos, vec_z = 0\<rparr>;
             s' = state_of (animate fl now s)
         in (if pos_y pos < 0 \<or> elapsed > fl_timeOfFlight fl + 0.1
             then animate fl now s = Returned
                    (s\<lparr>projectileStateRef := (projectileStateRef s)\<lparr>active := False\<rparr>,
                       projectileRef := Some (p\<lparr>visible := False\<rparr>),
                       isFiring := False,
                       showPanel := True\<rparr>)
             else animate fl now s = Returned s' \<and>
                  active (projectileStateRef s') \<and>
                  projectileRef s' = Some (p\<lparr>mesh_position := world\<rparr>) \<and>
                  pd_position (projectileData s') =
                    \<lparr>pos_x = toFixed2 (vec_x world), pos_y = toFixed2 (vec_y world)\<rparr> \<and>
                  pd_currentTime (projectileData s') = toFixed2 elapsed \<and>
                  target (cameraControlsRef s') =
                    (if fl_cameraMode fl = ''follow'' then world
                     else target (cameraControlsRef s)) \<and>
                  isFiring s' = isFiring s \<and> showPanel s' = showPanel s \<and>
                  frameCallbacks s' = frameCallbacks s @ [FlightAnimate fl]) \<and>
            (active (projectileStateRef s') \<longleftrightarrow>
               \<not> (pos_y pos < 0 \<or> elapsed > fl_timeOfFlight fl + 0.1))"
  using assms by (simp add: animate_def Let_def)

theorem landing_predicate_witness:
  "active (projectileStateRef (run [Fire 0 0] initialState)) \<and>
   projectileRef (run [Fire 0 0] initialState) \<noteq> None \<and>
   cameraRef (run [Fire 0 0] initialState) \<noteq> None \<and>
   active (projectileStateRef
     (state_of (animate (capture 0 initialState) 16 (run [Fire 0 0] initialState))))"
proof -
  let ?S = "run [Fire 0 0] initialState"
  from fired_initial obtain s1 where
    s1: "fireProjectile 0 0 initialState = Returned s1" "active (projectileStateRef s1)"
        "projectileRef s1 \<noteq> None" "cameraRef s1 \<noteq> None"
    by blast
  have S: "?S = s1"
    by (simp add: s1(1))
  from s1(3,4) obtain p cam where refs: "projectileRef ?S = Some p" "cameraRef ?S = Some cam"
    unfolding S by blast
  have a: "active (projectileStateRef ?S)"
    unfolding S by (rule s1(2))
  have "\<not> (pos_y (calculateTrajectory 45 20 (16 / 1000)
              (MOUNT_HEIGHT + BARREL_LENGTH * sin ((45 * pi) / 180))) < 0 \<or>
            16 / 1000 > calculateFlightTime 45 20
              (MOUNT_HEIGHT + BARREL_LENGTH * sin ((45 * pi) / 180)) + 0.1)"
    by (rule first_frame_flying) simp_all
  then have "active (projectileStateRef (state_of (animate (capture 0 initialState) 16 ?S)))"
    using landing_predicate[OF a refs, of 16 "capture 0 initialState"]
    by (simp add: Let_def capture_def)
  then show ?thesis
    using a refs by simp
qed

section \<open>The camera distance\<close>

lemma updateCameraPosition_controls [simp]:
  "cameraControlsRef (updateCameraPosition s) = cameraControlsRef s"
  by (simp add: updateCameraPosition_def split: option.splits)

lemma presetAnimate_controls [simp]:
  "cameraControlsRef (state_of (presetAnimate tr now s)) = cameraControlsRef s"
  by (simp add: presetAnimate_def Let_def split: option.splits)

text \<open>A frame of the flight moves the camera target in follow mode, and never the
  distance.\<close>

lemma animate_distance [simp]:
  "distance (cameraControlsRef (state_of (animate fl now s))) = distance (cameraControlsRef s)"
  by (simp add: animate_def Let_def split: option.splits)

lemma fireProjectile_distance [simp]:
  "distance (cameraControlsRef (state_of (fireProjectile t0 t1 s)))
     = distance (cameraControlsRef s)"
  by (simp add: fireProjectile_def fireProjectileIn_def Let_def split: option.splits)

lemma presetControls_distance:
  "distance (presetControls mode c) \<in> {30, 15, 35, 8, distance c}"
  by (simp add: presetControls_def)

lemma setCameraPreset_distance:
  "distance (cameraControlsRef (state_of (setCameraPreset mode t0 t1 s)))
     = distance (presetControls mode (cameraControlsRef s))"
  by (simp add: setCameraPreset_def Let_def split: option.splits)

lemma runFrame_distance [simp]:
  "distance (cameraControlsRef (runFrame now s)) = distance (cameraControlsRef s)"
  by (simp add: runFrame_def split: list.splits callback.splits)

lemma handleWheel_distance:
  "distance (cameraControlsRef (handleWheel deltaY s))
     = max 5 (min 100 (distance (cameraControlsRef s) + deltaY * 0.05))"
  by (simp add: handleWheel_def Let_def)

lemma handleMouseMove_distance [simp]:
  "distance (cameraControlsRef (handleMouseMove clientX clientY s))
     = distance (cameraControlsRef s)"
  by (simp add: handleMouseMove_def Let_def)

lemma step_distance_ok: "distance_ok s \<Longrightarrow> distance_ok (step e s)"
proof (cases e)
  case (Preset mode t0 t1)
  assume "distance_ok s"
  then show ?thesis
    using presetControls_distance[of mode "cameraControlsRef s"]
    by (auto simp: Preset distance_ok_def setCameraPreset_distance)
qed (auto simp: distance_ok_def handleWheel_distance handleMouseDown_def handleMouseUp_def)

lemma run_distance_ok: "distance_ok s \<Longrightarrow> distance_ok (run es s)"
  by (induction es arbitrary: s) (simp_all add: step_distance_ok)

lemma wheel_out:
  "distance_ok s \<Longrightarrow>
   distance (cameraControlsRef (run (replicate (Suc n) (Wheel 10000)) s)) = 100"
proof (induction n arbitrary: s)
  case 0
  then show ?case
    by (simp add: distance_ok_def handleWheel_distance)
next
  case (Suc n)
  have "distance_ok (step (Wheel 10000) s)"
    using Suc.prems by (rule step_distance_ok)
  from Suc.IH[OF this] show ?case
    by simp
qed

lemma wheel_in:
  "distance_ok s \<Longrightarrow>
   distance (cameraControlsRef (run (replicate (Suc n) (Wheel (- 10000))) s)) = 5"
proof (induction n arbitrary: s)
  case 0
  then show ?case
    by (simp add: distance_ok_def handleWheel_distance)
next
  case (Suc n)
  have "distance_ok (step (Wheel (- 10000)) s)"
    using Suc.prems by (rule step_distance_ok)
  from Suc.IH[OF this] show ?case
    by simp
qed

lemma initial_distance_ok: "distance_ok initialState"
  by (simp add: distance_ok_def)

text \<open>Claim C8. From the mounted component, after any sequence of events (wheel
  events and preset selections, and also mouse drags, firing, panel buttons, frame
  callbacks and the target reset) the camera distance lies between 5 and 100. Selecting
  any camera mode and then sending 1000 wheel events with \<open>deltaY = 10000\<close> leaves the
  distance at 100; with \<open>deltaY = -10000\<close> it leaves the distance at 5.\<close>

theorem distance_clamped:
  "5 \<le> distance (cameraControlsRef (run evs initialState)) \<and>
   distance (cameraControlsRef (run evs initialState)) \<le> 100 \<and>
   distance (cameraControlsRef
     (run (Preset mode t0 t1 # replicate 1000 (Wheel 10000)) initialState)) = 100 \<and>
   distance (cameraControlsRef
     (run (Preset mode t0 t1 # replicate 1000 (Wheel (- 10000))) initialState)) = 5"
proof -
  have n: "(1000::nat) = Suc 999"
    by simp
  have p: "distance_ok (step (Preset mode t0 t1) initialState)"
    using initial_distance_ok by (rule step_distance_ok)
  have "distance_ok (run evs initialState)"
    using initial_distance_ok by (rule run_distance_ok)
  then show ?thesis
    using wheel_out[OF p, of 999] wheel_in[OF p, of 999]
    unfolding n by (simp add: distance_ok_def)
qed

section \<open>The trajectory preview\<close>

text \<open>When the sample at the flight time is not below the ground, the loop pushes it
  last.\<close>

lemma previewLoop_last:
  assumes "i \<le> steps"
    and "0 \<le> pos_y (calculateTrajectory angle v0 timeOfFlight y0)"
  shows "previewLoop angle v0 y0 timeOfFlight muzzleX i points \<noteq> [] \<and>
         last (previewLoop angle v0 y0 timeOfFlight muzzleX i points)
           = \<lparr>vec_x = muzzleX + pos_x (calculateTrajectory angle v0 timeOfFlight y0),
              vec_y = pos_y (calculateTrajectory angle v0 timeOfFlight y0),
              vec_z = 0\<rparr>"
  using assms
proof (induction angle v0 y0 timeOfFlight muzzleX i points rule: previewLoop.induct)
  case (1 angle v0 y0 timeOfFlight muzzleX i points)
  let ?p = "\<lparr>vec_x = muzzleX + pos_x (calculateTrajectory angle v0 timeOfFlight y0),
              vec_y = pos_y (calculateTrajectory angle v0 timeOfFlight y0),
              vec_z = 0\<rparr>"
  show ?case
  proof (cases "i = steps")
    case True
    have one: "(real steps / real steps) * timeOfFlight = timeOfFlight"
      by (simp add: steps_def)
    have "previewLoop angle v0 y0 timeOfFlight muzzleX steps points
            = previewLoop angle v0 y0 timeOfFlight muzzleX (steps + 1) (points @ [?p])"
      by (subst previewLoop.simps) (simp only: one "1.prems"(2) if_True le_refl)
    also have "\<dots> = points @ [?p]"
      by (subst previewLoop.simps) simp
    finally show ?thesis
      by (simp add: True)
  next
    case False
    then have lt: "i + 1 \<le> steps"
      using "1.prems"(1) by simp
    from "1.IH"[OF "1.prems"(1) lt "1.prems"(2)]
    show ?thesis
      using "1.prems"(1) by (subst (1 2) previewLoop.simps) simp
  qed
qed

lemma muzzle_height_nonneg:
  assumes "0 \<le> angle" "angle \<le> 180"
  shows "0 \<le> MOUNT_HEIGHT + BARREL_LENGTH * sin ((angle * pi) / 180)"
  using sin_deg_nonneg[OF assms] by (simp add: MOUNT_HEIGHT_def BARREL_LENGTH_def)

lemma preview_last:
  assumes "0 \<le> angle" "angle \<le> 180"
  shows "previewPoints angle v0 \<noteq> [] \<and>
         vec_y (last (previewPoints angle v0)) = 0 \<and>
         vec_x (last (previewPoints angle v0)) =
           BARREL_LENGTH * cos ((angle * pi) / 180) +
           calculateRange angle v0 (MOUNT_HEIGHT + BARREL_LENGTH * sin ((angle * pi) / 180))"
proof -
  define y0 where "y0 = MOUNT_HEIGHT + BARREL_LENGTH * sin ((angle * pi) / 180)"
  define tof where "tof = calculateFlightTime angle v0 y0"
  have y0: "0 \<le> y0"
    unfolding y0_def using assms by (rule muzzle_height_nonneg)
  have z: "pos_y (calculateTrajectory angle v0 tof y0) = 0"
    unfolding tof_def using y0 by (rule flight_root_exact)
  then have "0 \<le> pos_y (calculateTrajectory angle v0 tof y0)"
    by simp
  from previewLoop_last[OF _ this, of 0 "BARREL_LENGTH * cos ((angle * pi) / 180)" "[]"]
  have l: "previewPoints angle v0 \<noteq> []"
    "last (previewPoints angle v0) =
       \<lparr>vec_x = BARREL_LENGTH * cos ((angle * pi) / 180)
                  + pos_x (calculateTrajectory angle v0 tof y0),
        vec_y = pos_y (calculateTrajectory angle v0 tof y0),
        vec_z = 0\<rparr>"
    by (simp_all add: previewPoints_def Let_def y0_def tof_def)
  have x: "pos_x (calculateTrajectory angle v0 tof y0) = calculateRange angle v0 y0"
    by (simp add: calculateTrajectory_def calculateRange_def Let_def tof_def)
  show ?thesis
    using l z x by (simp add: y0_def)
qed

lemma sqrt3_bounds: "173 / 100 < sqrt 3" "sqrt 3 < 174 / 100"
proof -
  show "173 / 100 < sqrt 3"
    by (rule real_less_rsqrt) (simp add: power2_eq_square)
  show "sqrt 3 < 174 / 100"
    by (rule real_less_lsqrt) (simp_all add: power2_eq_square)
qed

text \<open>At 60 degrees and 10 m/s the range from the muzzle height lies between 9 and
  15 metres, the range from the ground below 9 metres.\<close>

lemma range_60_10_muzzle:
  "9 < calculateRange 60 10 (MOUNT_HEIGHT + BARREL_LENGTH * sin ((60 * pi) / 180))"
  "calculateRange 60 10 (MOUNT_HEIGHT + BARREL_LENGTH * sin ((60 * pi) / 180)) < 15"
proof -
  define y0 where "y0 = MOUNT_HEIGHT + BARREL_LENGTH * sin ((60 * pi) / 180)"
  define d where "d = 10 * (sqrt 3 / 2) * (10 * (sqrt 3 / 2)) + 2 * GRAVITY * y0"
  have y0: "y0 = 3 / 2 + 3 * (sqrt 3 / 2)"
    by (simp add: y0_def deg60 sin_60 MOUNT_HEIGHT_def BARREL_LENGTH_def)
  have sq: "10 * (sqrt 3 / 2) * (10 * (sqrt 3 / 2)) = 25 * (sqrt 3 * sqrt 3)"
    by simp
  have d: "d = 75 + 2 * GRAVITY * y0"
    unfolding d_def sq by simp
  have dl: "100 < d" and du: "d < 196"
    using sqrt3_bounds unfolding d y0 by (simp_all add: GRAVITY_def)
  have "sqrt 100 < sqrt d"
    using dl by (simp only: real_sqrt_less_iff)
  moreover have "sqrt 100 = 10"
    using real_sqrt_abs[of 10] by simp
  ultimately have sl: "10 < sqrt d"
    by simp
  have "sqrt d < sqrt 196"
    using du by (simp only: real_sqrt_less_iff)
  moreover have "sqrt 196 = 14"
    using real_sqrt_abs[of 14] by simp
  ultimately have su: "sqrt d < 14"
    by simp
  have t: "calculateFlightTime 60 10 y0 = (10 * (sqrt 3 / 2) + sqrt d) / GRAVITY"
    using dl by (simp add: calculateFlightTime_def Let_def deg60 sin_60 d_def)
  have r: "calculateRange 60 10 y0 = 5 * ((10 * (sqrt 3 / 2) + sqrt d) / GRAVITY)"
    by (simp add: calculateRange_def Let_def t deg60 cos_60)
  show "9 < calculateRange 60 10 (MOUNT_HEIGHT + BARREL_LENGTH * sin ((60 * pi) / 180))"
    unfolding y0_def[symmetric] r using sl sqrt3_bounds by (simp add: GRAVITY_def field_simps)
  show "calculateRange 60 10 (MOUNT_HEIGHT + BARREL_LENGTH * sin ((60 * pi) / 180)) < 15"
    unfolding y0_def[symmetric] r using su sqrt3_bounds by (simp add: GRAVITY_def field_simps)
qed

lemma range_60_10_ground: "calculateRange 60 10 0 < 9"
proof -
  have "sqrt (10 * (sqrt 3 / 2) * (10 * (sqrt 3 / 2))) = \<bar>10 * (sqrt 3 / 2)\<bar>"
    by (rule real_sqrt_abs2)
  then have s: "sqrt (10 * (sqrt 3 / 2) * (10 * (sqrt 3 / 2))) = 10 * (sqrt 3 / 2)"
    by simp
  have nn: "\<not> 10 * (sqrt 3 / 2) * (10 * (sqrt 3 / 2)) < 0"
    by (simp add: not_less)
  have t: "calculateFlightTime 60 10 0 = (10 * (sqrt 3 / 2) + 10 * (sqrt 3 / 2)) / GRAVITY"
    unfolding calculateFlightTime_def Let_def deg60 sin_60 using nn s by simp
  have r: "calculateRange 60 10 0 = 5 * ((10 * (sqrt 3 / 2) + 10 * (sqrt 3 / 2)) / GRAVITY)"
    by (simp add: calculateRange_def Let_def t deg60 cos_60)
  show ?thesis
    unfolding r using sqrt3_bounds by (simp add: GRAVITY_def field_simps)
qed

text \<open>Claim C7, as it stands: the last point of the preview is within one sampling
  step of \<open>calculateRange\<close>. At 60 degrees and 10 m/s it is not. One sampling step is
  the horizontal distance between two consecutive samples, a hundredth of the range
  from the muzzle height. The last point is further than that from the range, whether
  the range is taken from the muzzle height, as \<^verbatim>\<open>fireProjectile\<close> calls
  \<open>calculateRange\<close>, or from the ground, its default.\<close>

theorem preview_end_not_at_range:
  "calculateRange 60 10 (MOUNT_HEIGHT + BARREL_LENGTH * sin ((60 * pi) / 180)) / 100
     < \<bar>vec_x (last (previewPoints 60 10))
        - calculateRange 60 10 (MOUNT_HEIGHT + BARREL_LENGTH * sin ((60 * pi) / 180))\<bar> \<and>
   calculateRange 60 10 (MOUNT_HEIGHT + BARREL_LENGTH * sin ((60 * pi) / 180)) / 100
     < \<bar>vec_x (last (previewPoints 60 10)) - calculateRange 60 10 0\<bar>"
proof -
  have "(0::real) \<le> 60" "(60::real) \<le> 180"
    by simp_all
  from preview_last[OF this, of 10]
  have x: "vec_x (last (previewPoints 60 10)) =
      3 / 2 + calculateRange 60 10 (MOUNT_HEIGHT + BARREL_LENGTH * sin ((60 * pi) / 180))"
    by (simp add: deg60 cos_60 BARREL_LENGTH_def)
  show ?thesis
    unfolding x using range_60_10_muzzle range_60_10_ground by (simp add: abs_if)
qed

text \<open>Claim C7, amended. For an angle between 15 and 90 degrees, and any velocity,
  the preview is not empty and its last point is the sample at the flight time: its
  height is 0, and its horizontal coordinate is the muzzle offset
  \<open>BARREL_LENGTH * cos angle\<close> plus the range from the muzzle height
  \<open>MOUNT_HEIGHT + BARREL_LENGTH * sin angle\<close>.\<close>

theorem preview_last_point:
  assumes "15 \<le> angle" "angle \<le> 90"
  shows "previewPoints angle v0 \<noteq> [] \<and>
         vec_y (last (previewPoints angle v0)) = 0 \<and>
         vec_x (last (previewPoints angle v0)) =
           BARREL_LENGTH * cos ((angle * pi) / 180) +
           calculateRange angle v0 (MOUNT_HEIGHT + BARREL_LENGTH * sin ((angle * pi) / 180))"
proof -
  have "0 \<le> angle" "angle \<le> 180"
    using assms by simp_all
  then show ?thesis
    by (rule preview_last)
qed

theorem preview_last_point_witness:
  "(15::real) \<le> 60 \<and> (60::real) \<le> 90 \<and> previewPoints 60 10 \<noteq> [] \<and>
   vec_y (last (previewPoints 60 10)) = 0 \<and>
   vec_x (last (previewPoints 60 10)) =
     3 / 2 + calculateRange 60 10 (3 / 2 + 3 * (sqrt 3 / 2))"
  using preview_last_point[of 60 10]
  by (simp add: deg60 cos_60 sin_60 BARREL_LENGTH_def MOUNT_HEIGHT_def)

end
